theory Spec2Isabelle
  imports Complex_Main "HOL-Library.Sublist" "HOL-Library.List_Lexorder"
begin

text \<open>
  A deal finder for a classifieds site: search-term arguments with price ranges, the
  normalisation of price texts, the title filter, the matching loop with its
  deduplication and sorting, and the store of URLs already notified. The functions of
  \<^verbatim>\<open>kleinanzeigen.py\<close> are embedded under their own names; the properties proved of
  them follow the definitions.
\<close>

section \<open>Python strings\<close>

text \<open>
  A Python \<^verbatim>\<open>str\<close> is a sequence of Unicode code points; it is modelled as a
  list of natural numbers, one per code point. \<open>py\<close> turns an Isabelle literal
  (whose characters are the code points below 256) into such a string.
  Python's \<^verbatim>\<open>a in b\<close> on strings is the contiguous-sublist test \<open>sublist a b\<close>.
\<close>

type_synonym pystr = "nat list"

definition py :: "string \<Rightarrow> pystr" where
  "py s = map of_char s"

text \<open>
  \<^verbatim>\<open>str.lower()\<close>: the cased letters of ASCII and Latin-1 move to their lower-case
  code point; every other code point below 256 is its own lower case. Code points
  from 256 on are left as they are (Python's case tables for them are not part of this
  development).
\<close>

definition lower_cp :: "nat \<Rightarrow> nat" where
  "lower_cp c =
     (if 65 \<le> c \<and> c \<le> 90 then c + 32
      else if 192 \<le> c \<and> c \<le> 222 \<and> c \<noteq> 215 then c + 32
      else c)"

definition lower :: "pystr \<Rightarrow> pystr" where
  "lower s = map lower_cp s"

text \<open>\<^verbatim>\<open>str.isspace()\<close> for one code point, as \<^verbatim>\<open>str.strip()\<close> uses it.\<close>

definition is_space :: "nat \<Rightarrow> bool" where
  "is_space c \<longleftrightarrow>
     (9 \<le> c \<and> c \<le> 13) \<or> (28 \<le> c \<and> c \<le> 32) \<or> c = 133 \<or> c = 160 \<or> c = 5760 \<or>
     (8192 \<le> c \<and> c \<le> 8202) \<or> c = 8232 \<or> c = 8233 \<or> c = 8239 \<or> c = 8287 \<or>
     c = 12288"

definition strip :: "pystr \<Rightarrow> pystr" where
  "strip s = rev (dropWhile is_space (rev (dropWhile is_space s)))"

text \<open>\<^verbatim>\<open>s.replace(old, new)\<close> for a one-character \<open>old\<close>.\<close>

definition replace_cp :: "nat \<Rightarrow> pystr \<Rightarrow> pystr \<Rightarrow> pystr" where
  "replace_cp old new s = concat (map (\<lambda>c. if c = old then new else [c]) s)"

section \<open>Title filter\<close>

definition DEFAULT_TITLE_BLACKLIST :: "pystr list" where
  "DEFAULT_TITLE_BLACKLIST =
     [py ''gaming pc'', py ''pc '', py '' setup'', py ''bundle'', py ''komplett'',
      py ''rechner'', py ''fertig'', py ''wasserk'' @ [252] @ py ''hlung'',
      py ''wasserkuehlung'']"

text \<open>
  The loop over the default blacklist: an entry that occurs in the lowered search term
  is skipped, the first other entry that occurs in the lowered title answers \<open>True\<close>.
\<close>

fun default_loop :: "pystr list \<Rightarrow> pystr \<Rightarrow> pystr \<Rightarrow> bool" where
  "default_loop [] t term_lower = False"
| "default_loop (bad # rest) t term_lower =
     (if sublist bad term_lower then default_loop rest t term_lower
      else if sublist bad t then True
      else default_loop rest t term_lower)"

text \<open>The loop over the user's entries lowers each entry first.\<close>

fun extra_loop :: "pystr list \<Rightarrow> pystr \<Rightarrow> pystr \<Rightarrow> bool" where
  "extra_loop [] t term_lower = False"
| "extra_loop (bad # rest) t term_lower =
     (let bad_l = lower bad in
      if sublist bad_l term_lower then extra_loop rest t term_lower
      else if sublist bad_l t then True
      else extra_loop rest t term_lower)"

definition gaming_phrase :: "pystr \<Rightarrow> bool" where
  "gaming_phrase t \<longleftrightarrow>
     sublist (py ''gaming'') t \<and> (sublist (py ''pc'') t \<or> sublist (py ''setup'') t)"

definition term_has_trigger :: "pystr \<Rightarrow> bool" where
  "term_has_trigger term_lower \<longleftrightarrow>
     sublist (py ''gaming'') term_lower \<or> sublist (py ''pc'') term_lower \<or>
     sublist (py ''setup'') term_lower"

text \<open>
  \<open>is_blacklisted_title\<close>; the optional third argument is \<open>None\<close> or a list, and
  an empty list is falsy, so it is skipped like \<open>None\<close>.
\<close>

definition is_blacklisted_title :: "pystr \<Rightarrow> pystr \<Rightarrow> pystr list option \<Rightarrow> bool" where
  "is_blacklisted_title title search_term extra_blacklist =
     (let t = lower title; term_lower = lower search_term in
      if gaming_phrase t \<and> \<not> term_has_trigger term_lower then True
      else if default_loop DEFAULT_TITLE_BLACKLIST t term_lower then True
      else (case extra_blacklist of
              None \<Rightarrow> False
            | Some [] \<Rightarrow> False
            | Some bl \<Rightarrow> extra_loop bl t term_lower))"

text \<open>
  The same control flow with each \<^verbatim>\<open>return True\<close> labelled by the rule that
  reached it: the gaming-PC phrase rule, a default entry, or a user entry.
\<close>

datatype cause = ByGamingRule | ByDefault pystr | ByExtra pystr

fun default_cause :: "pystr list \<Rightarrow> pystr \<Rightarrow> pystr \<Rightarrow> cause option" where
  "default_cause [] t term_lower = None"
| "default_cause (bad # rest) t term_lower =
     (if sublist bad term_lower then default_cause rest t term_lower
      else if sublist bad t then Some (ByDefault bad)
      else default_cause rest t term_lower)"

fun extra_cause :: "pystr list \<Rightarrow> pystr \<Rightarrow> pystr \<Rightarrow> cause option" where
  "extra_cause [] t term_lower = None"
| "extra_cause (bad # rest) t term_lower =
     (let bad_l = lower bad in
      if sublist bad_l term_lower then extra_cause rest t term_lower
      else if sublist bad_l t then Some (ByExtra bad)
      else extra_cause rest t term_lower)"

definition exclusion_cause :: "pystr \<Rightarrow> pystr \<Rightarrow> pystr list option \<Rightarrow> cause option" where
  "exclusion_cause title search_term extra_blacklist =
     (let t = lower title; term_lower = lower search_term in
      if gaming_phrase t \<and> \<not> term_has_trigger term_lower then Some ByGamingRule
      else (case default_cause DEFAULT_TITLE_BLACKLIST t term_lower of
              Some c \<Rightarrow> Some c
            | None \<Rightarrow>
               (case extra_blacklist of
                  None \<Rightarrow> None
                | Some [] \<Rightarrow> None
                | Some bl \<Rightarrow> extra_cause bl t term_lower)))"

section \<open>Numbers\<close>

text \<open>
  A Python \<^verbatim>\<open>float\<close> is modelled by the rational number its decimal text
  denotes: rounding to the nearest double, infinities and NaN are outside this
  development. \<open>py_float\<close> follows the grammar of \<^verbatim>\<open>float(s)\<close> for finite
  literals (surrounding whitespace, a sign, digits with single underscores between
  them, a fraction, an exponent) and answers \<open>None\<close> where \<^verbatim>\<open>float\<close> raises
  \<^verbatim>\<open>ValueError\<close>. It answers \<open>None\<close> as well for the texts \<open>inf\<close>,
  \<open>infinity\<close> and \<open>nan\<close>, which \<^verbatim>\<open>float\<close> accepts and which denote no number.
  Decimal digits are the ASCII ones.
\<close>

definition is_digit :: "nat \<Rightarrow> bool" where
  "is_digit c \<longleftrightarrow> 48 \<le> c \<and> c \<le> 57"

fun digitpart :: "pystr \<Rightarrow> bool" where
  "digitpart [] = False"
| "digitpart [c] = is_digit c"
| "digitpart (c # d # cs) =
     (is_digit c \<and> (if d = 95 then digitpart cs else digitpart (d # cs)))"

definition digits_value :: "pystr \<Rightarrow> nat" where
  "digits_value s = foldl (\<lambda>a c. 10 * a + (c - 48)) 0 (filter is_digit s)"

definition number_value :: "pystr \<Rightarrow> pystr \<Rightarrow> rat option" where
  "number_value ip fr =
     (case fr of
        [] \<Rightarrow> if digitpart ip then Some (of_nat (digits_value ip)) else None
      | _ # fp \<Rightarrow>
          if (ip = [] \<or> digitpart ip) \<and> (fp = [] \<or> digitpart fp) \<and> \<not> (ip = [] \<and> fp = [])
          then Some (of_nat (digits_value ip)
                     + of_nat (digits_value fp) / 10 ^ length (filter is_digit fp))
          else None)"

definition exponent_value :: "pystr \<Rightarrow> int option" where
  "exponent_value ex =
     (case ex of
        [] \<Rightarrow> Some 0
      | _ # [] \<Rightarrow> None
      | _ # c # cs \<Rightarrow>
          if c = 45 then (if digitpart cs then Some (- int (digits_value cs)) else None)
          else if c = 43 then (if digitpart cs then Some (int (digits_value cs)) else None)
          else if digitpart (c # cs) then Some (int (digits_value (c # cs)))
          else None)"

definition scale10 :: "rat \<Rightarrow> int \<Rightarrow> rat" where
  "scale10 m e = (if 0 \<le> e then m * 10 ^ nat e else m / 10 ^ nat (- e))"

definition py_float :: "pystr \<Rightarrow> rat option" where
  "py_float s =
     (let s1 = strip s;
          neg = (case s1 of [] \<Rightarrow> False | c # _ \<Rightarrow> c = 45);
          s2 = (case s1 of [] \<Rightarrow> [] | c # cs \<Rightarrow> if c = 45 \<or> c = 43 then cs else s1);
          mant = takeWhile (\<lambda>c. c \<noteq> 101 \<and> c \<noteq> 69) s2;
          ex = dropWhile (\<lambda>c. c \<noteq> 101 \<and> c \<noteq> 69) s2
      in case number_value (takeWhile (\<lambda>c. c \<noteq> 46) mant) (dropWhile (\<lambda>c. c \<noteq> 46) mant) of
           None \<Rightarrow> None
         | Some m \<Rightarrow>
            (case exponent_value ex of
               None \<Rightarrow> None
             | Some e \<Rightarrow> Some (scale10 (if neg then - m else m) e)))"

text \<open>
  The values of Python's \<^verbatim>\<open>float\<close> where a search argument or a command-line
  option supplies them: a finite number, an infinity, or NaN. \<open>Finite q\<close> is the
  double whose value is \<open>q\<close>. \<open>float_lt\<close> and \<open>float_le\<close> are Python's \<^verbatim>\<open><\<close> and
  \<^verbatim>\<open><=\<close> on them: every comparison with NaN is false.
\<close>

datatype pyfloat = Finite rat | PosInf | NegInf | NaN

fun float_lt :: "pyfloat \<Rightarrow> pyfloat \<Rightarrow> bool" where
  "float_lt NaN b = False"
| "float_lt a NaN = False"
| "float_lt (Finite a) (Finite b) = (a < b)"
| "float_lt (Finite a) PosInf = True"
| "float_lt (Finite a) NegInf = False"
| "float_lt PosInf b = False"
| "float_lt NegInf NegInf = False"
| "float_lt NegInf b = True"

fun float_le :: "pyfloat \<Rightarrow> pyfloat \<Rightarrow> bool" where
  "float_le NaN b = False"
| "float_le a NaN = False"
| "float_le (Finite a) (Finite b) = (a \<le> b)"
| "float_le (Finite a) PosInf = True"
| "float_le (Finite a) NegInf = False"
| "float_le PosInf PosInf = True"
| "float_le PosInf b = False"
| "float_le NegInf b = True"

text \<open>
  The built-in \<^verbatim>\<open>float\<close> of the interpreter is a parameter of the functions that
  call it on what the user typed: a function from texts to float values, \<open>None\<close> where
  it raises \<^verbatim>\<open>ValueError\<close>. What is proved of those functions is proved for every
  such function, so for the interpreter's own with its rounding and its table of
  decimal digits. \<open>float_ascii\<close> is one such function, used to run examples: it reads
  \<open>inf\<close>, \<open>infinity\<close> and \<open>nan\<close> in any case and with a sign, and ASCII decimal
  literals as \<open>py_float\<close> does.
\<close>

definition float_ascii :: "pystr \<Rightarrow> pyfloat option" where
  "float_ascii s =
     (let s1 = lower (strip s);
          neg = (case s1 of [] \<Rightarrow> False | c # _ \<Rightarrow> c = 45);
          s2 = (case s1 of [] \<Rightarrow> [] | c # cs \<Rightarrow> if c = 45 \<or> c = 43 then cs else s1)
      in if s2 = py ''inf'' \<or> s2 = py ''infinity'' then Some (if neg then NegInf else PosInf)
         else if s2 = py ''nan'' then Some NaN
         else map_option Finite (py_float s))"

section \<open>Price normalisation\<close>

text \<open>
  \<^verbatim>\<open>re.search(r"(\d+(?:[\.,]\d{1,2})?)", s)\<close>: the match starts at the first digit
  of \<open>s\<close>, takes the whole run of digits there and then, when a \<open>.\<close> or \<open>,\<close>
  followed by a digit comes next, that separator and one or two digits.
\<close>

fun fraction_group :: "pystr \<Rightarrow> pystr" where
  "fraction_group (sep # d1 # d2 # more) =
     (if (sep = 46 \<or> sep = 44) \<and> is_digit d1
      then (if is_digit d2 then [sep, d1, d2] else [sep, d1])
      else [])"
| "fraction_group [sep, d1] =
     (if (sep = 46 \<or> sep = 44) \<and> is_digit d1 then [sep, d1] else [])"
| "fraction_group rest = []"

definition re_search_price :: "pystr \<Rightarrow> pystr option" where
  "re_search_price s =
     (let from_digit = dropWhile (\<lambda>c. \<not> is_digit c) s in
      if from_digit = [] then None
      else Some (takeWhile is_digit from_digit @ fraction_group (dropWhile is_digit from_digit)))"

definition parse_price :: "pystr \<Rightarrow> rat option" where
  "parse_price text0 =
     (let text = strip text0 in
      if text = [] then None
      else if sublist (py ''zu verschenken'') (lower text) \<or> sublist (py ''tausch'') (lower text)
      then None
      else (case re_search_price (replace_cp 160 (py '' '') text) of
              None \<Rightarrow> None
            | Some g \<Rightarrow> py_float (replace_cp 44 (py ''.'') (replace_cp 46 [] g))))"

section \<open>Search-term arguments\<close>

record search_term_config =
  c_term :: pystr
  min_price :: "pyfloat option"
  max_price :: "pyfloat option"

text \<open>The \<^verbatim>\<open>ValueError\<close>s of the parser, one constructor per message.\<close>

datatype validation_error =
    EmptyTerm pystr
  | MissingPrice pystr
  | InvalidPriceRange pystr pystr
  | InvalidPrice pystr pystr
  | MaxLessThanMin pystr pystr

text \<open>\<^verbatim>\<open>s.split(sep)\<close> for a one-character separator: empty pieces are kept.\<close>

fun split_on :: "nat \<Rightarrow> pystr \<Rightarrow> pystr list" where
  "split_on sep [] = [[]]"
| "split_on sep (c # cs) =
     (if c = sep then [] # split_on sep cs
      else (case split_on sep cs of
              [] \<Rightarrow> [[c]]
            | piece # pieces \<Rightarrow> (c # piece) # pieces))"

definition mk_configs ::
  "pystr list \<Rightarrow> pyfloat option \<Rightarrow> pyfloat option \<Rightarrow> search_term_config list" where
  "mk_configs term_variants local_min local_max =
     map (\<lambda>t. \<lparr>c_term = t, min_price = local_min, max_price = local_max\<rparr>) term_variants"

text \<open>
  \<^verbatim>\<open>s.partition(sep)\<close> for a one-character separator: the text before the first
  separator, whether there is one, and the text after it.
\<close>

definition str_partition :: "nat \<Rightarrow> pystr \<Rightarrow> pystr \<times> bool \<times> pystr" where
  "str_partition sep s =
     (takeWhile (\<lambda>c. c \<noteq> sep) s, sep \<in> set s, tl (dropWhile (\<lambda>c. c \<noteq> sep) s))"

text \<open>\<^verbatim>\<open>float(s.replace(",", "."))\<close>, for the interpreter's \<^verbatim>\<open>float\<close>.\<close>

definition float_comma :: "(pystr \<Rightarrow> pyfloat option) \<Rightarrow> pystr \<Rightarrow> pyfloat option" where
  "float_comma float_of s = float_of (replace_cp 44 (py ''.'') s)"

text \<open>
  The part of \<open>parse_search_term_arg\<close> after the \<open>:\<close>: the stripped price text
  is a range when it has a \<open>-\<close> (split at the first one, so \<^verbatim>\<open>split("-", 1)\<close> has
  two pieces) and a lone minimum otherwise.
\<close>

definition parse_price_spec ::
  "(pystr \<Rightarrow> pyfloat option) \<Rightarrow> pystr \<Rightarrow> pystr \<Rightarrow>
   validation_error + (pyfloat option \<times> pyfloat option)" where
  "parse_price_spec float_of arg price_str =
     (if 45 \<in> set price_str then
        (case str_partition 45 price_str of
           (low, _, high) \<Rightarrow>
             (let low_str = strip low; high_str = strip high
              in if low_str = [] \<or> high_str = [] then Inl (InvalidPriceRange price_str arg)
                 else (case float_comma float_of low_str of
                         None \<Rightarrow> Inl (InvalidPriceRange price_str arg)
                       | Some local_min \<Rightarrow>
                          (case float_comma float_of high_str of
                             None \<Rightarrow> Inl (InvalidPriceRange price_str arg)
                           | Some local_max \<Rightarrow>
                               if float_lt local_max local_min
                               then Inl (MaxLessThanMin price_str arg)
                               else Inr (Some local_min, Some local_max)))))
      else (case float_comma float_of price_str of
              None \<Rightarrow> Inl (InvalidPrice price_str arg)
            | Some local_min \<Rightarrow> Inr (Some local_min, None)))"

text \<open>The non-empty stripped pieces of the term group, in order.\<close>

definition term_variants_of :: "pystr \<Rightarrow> pystr list" where
  "term_variants_of term_raw =
     map strip (filter (\<lambda>t. strip t \<noteq> []) (split_on 124 term_raw))"

definition parse_search_term_arg ::
  "(pystr \<Rightarrow> pyfloat option) \<Rightarrow> pystr \<Rightarrow> validation_error + search_term_config list" where
  "parse_search_term_arg float_of arg =
     (case str_partition 58 arg of
        (term_part, sep, price_part) \<Rightarrow>
          (let term_raw = strip term_part
           in if term_raw = [] then Inl (EmptyTerm arg)
              else (let term_variants = term_variants_of term_raw
                    in if term_variants = [] then Inl (EmptyTerm arg)
                       else if sep then
                         (let price_str = strip price_part
                          in if price_str = [] then Inl (MissingPrice arg)
                             else (case parse_price_spec float_of arg price_str of
                                     Inl e \<Rightarrow> Inl e
                                   | Inr (local_min, local_max) \<Rightarrow>
                                       Inr (mk_configs term_variants local_min local_max)))
                       else Inr (mk_configs term_variants None None))))"

text \<open>
  The pieces of an argument the statements about the parser speak of: the stripped text
  before the first \<open>:\<close>, whether there is a \<open>:\<close>, the stripped text after it, and the
  stripped texts before and after the first \<open>-\<close> of a price text.
\<close>

definition term_raw_of :: "pystr \<Rightarrow> pystr" where
  "term_raw_of arg = strip (fst (str_partition 58 arg))"

definition has_colon :: "pystr \<Rightarrow> bool" where
  "has_colon arg = fst (snd (str_partition 58 arg))"

definition price_str_of :: "pystr \<Rightarrow> pystr" where
  "price_str_of arg = strip (snd (snd (str_partition 58 arg)))"

definition low_str_of :: "pystr \<Rightarrow> pystr" where
  "low_str_of price_str = strip (fst (str_partition 45 price_str))"

definition high_str_of :: "pystr \<Rightarrow> pystr" where
  "high_str_of price_str = strip (snd (snd (str_partition 45 price_str)))"

section \<open>Match engine\<close>

text \<open>
  A listing is built only with a price that \<open>parse_price\<close> has read, a number that is
  not negative; its price is a rational here, as \<open>py_float\<close> reads it.
\<close>

record listing =
  title :: pystr
  price :: rat
  location :: pystr
  url :: pystr
  l_term :: pystr

text \<open>
  The candidate source stands for the HTTP request and the extraction of the ad blocks
  from the page: for a request URL it yields \<open>None\<close> when the request raises, and
  otherwise the ad blocks that have a title anchor, in page order, each with the
  anchor's text and href, the text of the price element (empty when there is none) and
  the text of the location element.
\<close>

record raw_ad =
  ad_title :: pystr
  ad_href :: pystr
  ad_price_text :: pystr
  ad_location :: pystr

type_synonym candidate_source = "pystr \<Rightarrow> raw_ad list option"

definition BASE_URL :: pystr where
  "BASE_URL = py ''https://www.kleinanzeigen.de/s-''"

definition listing_of_ad :: "pystr \<Rightarrow> pystr list option \<Rightarrow> raw_ad \<Rightarrow> listing option" where
  "listing_of_ad trm extra_blacklist ad =
     (if is_blacklisted_title (ad_title ad) trm extra_blacklist then None
      else (let href = (if prefix (py ''http'') (ad_href ad) then ad_href ad
                        else py ''https://www.kleinanzeigen.de'' @ ad_href ad)
            in case parse_price (ad_price_text ad) of
                 None \<Rightarrow> None
               | Some p \<Rightarrow>
                   Some \<lparr>title = ad_title ad, price = p, location = ad_location ad,
                         url = href, l_term = trm\<rparr>))"

definition fetch_listings_for_term ::
  "candidate_source \<Rightarrow> pystr \<Rightarrow> pystr list option \<Rightarrow> listing list option" where
  "fetch_listings_for_term source trm extra_blacklist =
     (let slug = replace_cp 32 (py ''-'') (lower trm);
          url = BASE_URL @ slug @ py ''/k0''
      in case source url of
           None \<Rightarrow> None
         | Some ads \<Rightarrow> Some (List.map_filter (listing_of_ad trm extra_blacklist) ads))"

text \<open>
  A positional search term is a \<open>SearchTermConfig\<close> or a plain string. The lines the
  matching loop prints and its pause between two terms have no part in what it returns
  and are left out.
\<close>

datatype term_arg = Config search_term_config | Plain pystr

definition to_config :: "term_arg \<Rightarrow> search_term_config" where
  "to_config a =
     (case a of
        Config cfg \<Rightarrow> cfg
      | Plain s \<Rightarrow> \<lparr>c_term = s, min_price = None, max_price = None\<rparr>)"

definition effective :: "pyfloat option \<Rightarrow> pyfloat option \<Rightarrow> pyfloat option" where
  "effective own global = (case own of Some b \<Rightarrow> Some b | None \<Rightarrow> global)"

text \<open>
  \<^verbatim>\<open>effective_min is not None and listing.price < effective_min\<close>, and the same
  for the maximum with \<^verbatim>\<open>>\<close>: comparisons of floats, the price on one side and
  the bound on the other.
\<close>

definition below_min :: "pyfloat option \<Rightarrow> listing \<Rightarrow> bool" where
  "below_min effective_min l =
     (case effective_min of None \<Rightarrow> False | Some m \<Rightarrow> float_lt (Finite (price l)) m)"

definition above_max :: "pyfloat option \<Rightarrow> listing \<Rightarrow> bool" where
  "above_max effective_max l =
     (case effective_max of None \<Rightarrow> False | Some m \<Rightarrow> float_lt m (Finite (price l)))"

text \<open>The inner loop over one term's listings: the two \<^verbatim>\<open>continue\<close>s, then the append.\<close>

fun price_loop ::
  "pyfloat option \<Rightarrow> pyfloat option \<Rightarrow> listing list \<Rightarrow> listing list \<Rightarrow> listing list" where
  "price_loop effective_min effective_max [] all_hits = all_hits"
| "price_loop effective_min effective_max (l # ls) all_hits =
     (if below_min effective_min l then price_loop effective_min effective_max ls all_hits
      else if above_max effective_max l then price_loop effective_min effective_max ls all_hits
      else price_loop effective_min effective_max ls (all_hits @ [l]))"

text \<open>The loop over the configurations; a failed fetch skips the term.\<close>

fun collect_hits ::
  "candidate_source \<Rightarrow> pyfloat option \<Rightarrow> pyfloat option \<Rightarrow> pystr list option \<Rightarrow>
   search_term_config list \<Rightarrow> listing list \<Rightarrow> listing list" where
  "collect_hits source gmin gmax extra_blacklist [] all_hits = all_hits"
| "collect_hits source gmin gmax extra_blacklist (cfg # cfgs) all_hits =
     (case fetch_listings_for_term source (c_term cfg) extra_blacklist of
        None \<Rightarrow> collect_hits source gmin gmax extra_blacklist cfgs all_hits
      | Some listings \<Rightarrow>
          collect_hits source gmin gmax extra_blacklist cfgs
            (price_loop (effective (min_price cfg) gmin) (effective (max_price cfg) gmax)
               listings all_hits))"

text \<open>The deduplication loop, with its set of seen URLs and its result list.\<close>

fun dedup_loop :: "listing list \<Rightarrow> pystr set \<Rightarrow> listing list \<Rightarrow> listing list" where
  "dedup_loop [] seen_urls unique_hits = unique_hits"
| "dedup_loop (l # ls) seen_urls unique_hits =
     (if url l \<in> seen_urls then dedup_loop ls seen_urls unique_hits
      else dedup_loop ls (insert (url l) seen_urls) (unique_hits @ [l]))"

text \<open>
  \<^verbatim>\<open>sorted(unique_hits, key=lambda x: x.price)\<close> is a stable sort by key; so is
  \<open>sort_key\<close>, and a stable sort has one result.
\<close>

definition dedup_and_sort :: "listing list \<Rightarrow> listing list" where
  "dedup_and_sort all_hits = sort_key price (dedup_loop all_hits {} [])"

definition find_matching_listings ::
  "candidate_source \<Rightarrow> term_arg list \<Rightarrow> pyfloat option \<Rightarrow> pyfloat option \<Rightarrow>
   pystr list option \<Rightarrow> listing list" where
  "find_matching_listings source search_terms gmin gmax extra_blacklist =
     dedup_and_sort (collect_hits source gmin gmax extra_blacklist (map to_config search_terms) [])"

text \<open>
  The specification's words for the two steps, to compare the loops with. A price is in
  range when the lower bound is at most the price and the price at most the upper bound,
  an absent bound leaving that side open; a term's own bound is used when it is set, the
  run's otherwise. \<open>not_outside\<close> is what the two tests of the loop leave through: a
  price that is neither below the lower bound nor above the upper one. Deduplication
  keeps the first listing met for each URL and drops every later listing with that URL.
\<close>

definition in_range :: "pyfloat option \<Rightarrow> pyfloat option \<Rightarrow> rat \<Rightarrow> bool" where
  "in_range lo hi p \<longleftrightarrow>
     (case lo of None \<Rightarrow> True | Some m \<Rightarrow> float_le m (Finite p)) \<and>
     (case hi of None \<Rightarrow> True | Some m \<Rightarrow> float_le (Finite p) m)"

definition not_outside :: "pyfloat option \<Rightarrow> pyfloat option \<Rightarrow> rat \<Rightarrow> bool" where
  "not_outside lo hi p \<longleftrightarrow>
     (case lo of None \<Rightarrow> True | Some m \<Rightarrow> \<not> float_lt (Finite p) m) \<and>
     (case hi of None \<Rightarrow> True | Some m \<Rightarrow> \<not> float_lt m (Finite p))"

definition effective_bound :: "pyfloat option \<Rightarrow> pyfloat option \<Rightarrow> pyfloat option" where
  "effective_bound own global = (if own = None then global else own)"

fun keep_first :: "listing list \<Rightarrow> listing list" where
  "keep_first [] = []"
| "keep_first (l # ls) = l # keep_first (filter (\<lambda>m. url m \<noteq> url l) ls)"

section \<open>Seen-state store\<close>

text \<open>
  The state file is modelled by what \<^verbatim>\<open>read_text\<close> and \<^verbatim>\<open>json.loads\<close> make of
  it: it is missing; it cannot be read; \<^verbatim>\<open>json.loads\<close> raises
  \<^verbatim>\<open>JSONDecodeError\<close> on its text; \<^verbatim>\<open>json.loads\<close> raises another exception on
  it (\<^verbatim>\<open>RecursionError\<close> on brackets nested too deep, a plain \<^verbatim>\<open>ValueError\<close>
  on an integer with too many digits); its JSON value is not a list; or it is a list. Of
  a list element only \<^verbatim>\<open>str(item)\<close> is used: \<open>JStr s\<close> is the string \<open>s\<close>, and
  \<open>JOther s\<close> any other value, \<open>s\<close> being its \<^verbatim>\<open>str\<close>.
\<close>

datatype json_item = JStr pystr | JOther pystr

datatype state_file =
  Missing | Unreadable | NotJson | DecodeRaises | JsonNotList | JsonList "json_item list"

fun py_str :: "json_item \<Rightarrow> pystr" where
  "py_str (JStr s) = s"
| "py_str (JOther s) = s"

datatype message = WarnRead | WarnParse | WarnFormat | WarnWrite | InfoNoNew | PrintListings "listing list"

datatype fs_call = Mkdir | WriteText "pystr list"

datatype sink_call = NotifyEmail "listing list" | NotifyNtfy "listing list"

text \<open>
  The world a run acts on: the state file, the mutating file-system calls issued so
  far, the lines printed, and the calls made to the notification sinks.
\<close>

record world =
  store :: state_file
  fs_calls :: "fs_call list"
  printed :: "message list"
  sink_calls :: "sink_call list"

text \<open>
  What the file system does with one save: both calls succeed, \<^verbatim>\<open>mkdir\<close> raises
  (nothing catches it), or \<^verbatim>\<open>write_text\<close> raises and leaves the file in the given
  state.
\<close>

datatype disk = DiskOk | MkdirRaises | WriteRaises state_file

text \<open>
  The exceptions that leave a function: the one \<^verbatim>\<open>mkdir\<close> raises, and the one
  \<^verbatim>\<open>json.loads\<close> raises that is not a \<^verbatim>\<open>JSONDecodeError\<close>.
\<close>

datatype exn = OSError | DecodeError

definition say :: "message \<Rightarrow> world \<Rightarrow> world" where
  "say m w = w\<lparr>printed := printed w @ [m]\<rparr>"

text \<open>
  \<open>load_seen_urls\<close>: the first \<^verbatim>\<open>try\<close> catches \<^verbatim>\<open>FileNotFoundError\<close> silently
  and every other \<^verbatim>\<open>Exception\<close> with a warning; the second catches
  \<^verbatim>\<open>json.JSONDecodeError\<close> only, so another exception of \<^verbatim>\<open>json.loads\<close> leaves
  the function.
\<close>

definition load_seen_urls :: "world \<Rightarrow> exn + (pystr set \<times> world)" where
  "load_seen_urls w =
     (case store w of
        Missing \<Rightarrow> Inr ({}, w)
      | Unreadable \<Rightarrow> Inr ({}, say WarnRead w)
      | NotJson \<Rightarrow> Inr ({}, say WarnParse w)
      | DecodeRaises \<Rightarrow> Inl DecodeError
      | JsonNotList \<Rightarrow> Inr ({}, say WarnFormat w)
      | JsonList data \<Rightarrow> Inr (set (map py_str data), w))"

text \<open>
  \<^verbatim>\<open>json.dumps(sorted(urls))\<close> written to the file reads back as the list of those
  strings in that order.
\<close>

definition save_seen_urls :: "disk \<Rightarrow> pystr set \<Rightarrow> world \<Rightarrow> exn + world" where
  "save_seen_urls d urls w =
     (case d of
        MkdirRaises \<Rightarrow> Inl OSError
      | WriteRaises left \<Rightarrow>
          Inr (say WarnWrite
                 (w\<lparr>store := left,
                    fs_calls := fs_calls w @ [Mkdir, WriteText (sorted_list_of_set urls)]\<rparr>))
      | DiskOk \<Rightarrow>
          Inr (w\<lparr>store := JsonList (map JStr (sorted_list_of_set urls)),
                 fs_calls := fs_calls w @ [Mkdir, WriteText (sorted_list_of_set urls)]\<rparr>))"

definition filter_new_listings :: "disk \<Rightarrow> listing list \<Rightarrow> world \<Rightarrow> exn + (listing list \<times> world)" where
  "filter_new_listings d listings w =
     (case load_seen_urls w of
        Inl e \<Rightarrow> Inl e
      | Inr (seen, w1) \<Rightarrow>
          (let new_listings = filter (\<lambda>l. url l \<notin> seen) listings
           in if new_listings = [] then Inr ([], w1)
              else (case save_seen_urls d (seen \<union> set (map url new_listings)) w1 of
                      Inl e \<Rightarrow> Inl e
                    | Inr w2 \<Rightarrow> Inr (new_listings, w2))))"

section \<open>One run\<close>

definition notify_sinks :: "bool \<Rightarrow> bool \<Rightarrow> listing list \<Rightarrow> world \<Rightarrow> world" where
  "notify_sinks enable_email enable_ntfy new_hits w =
     w\<lparr>sink_calls := sink_calls w
          @ (if enable_email then [NotifyEmail new_hits] else [])
          @ (if enable_ntfy then [NotifyNtfy new_hits] else [])\<rparr>"


section \<open>A worked example\<close>

text \<open>
  One result page for the term \<open>laptop\<close> with three ads, priced 9999, 150 and 50; the
  listing the middle ad becomes; a world with no state file; and the world after a first
  notifying run that found that listing.
\<close>

definition example_ads :: "raw_ad list" where
  "example_ads =
     [\<lparr>ad_title = py ''Laptop C'', ad_href = py ''/s-anzeige/c/3'',
       ad_price_text = py ''9999 '' @ [8364], ad_location = py ''Bonn''\<rparr>,
      \<lparr>ad_title = py ''Laptop B'', ad_href = py ''/s-anzeige/b/2'',
       ad_price_text = py ''150 '' @ [8364] @ py '' VB'', ad_location = py ''Kiel''\<rparr>,
      \<lparr>ad_title = py ''Laptop A'', ad_href = py ''/s-anzeige/a/1'',
       ad_price_text = py ''50 '' @ [8364], ad_location = py ''Ulm''\<rparr>]"

definition example_source :: candidate_source where
  "example_source request =
     (if request = py ''https://www.kleinanzeigen.de/s-laptop/k0'' then Some example_ads
      else None)"

definition listing_b :: listing where
  "listing_b = \<lparr>title = py ''Laptop B'', price = 150, location = py ''Kiel'',
                 url = py ''https://www.kleinanzeigen.de/s-anzeige/b/2'', l_term = py ''laptop''\<rparr>"

definition empty_world :: world where
  "empty_world = \<lparr>store = Missing, fs_calls = [], printed = [], sink_calls = []\<rparr>"

definition notified_world :: world where
  "notified_world =
     \<lparr>store = JsonList [JStr (url listing_b)],
      fs_calls = [Mkdir, WriteText [url listing_b]],
      printed = [],
      sink_calls = [NotifyEmail [listing_b]]\<rparr>"


section \<open>Evaluation on concrete inputs\<close>

text \<open>The equations the simplifier needs to run the string functions on literals.\<close>

lemmas str_eval =
  py_def strip_def is_space_def lower_def lower_cp_def is_digit_def replace_cp_def
  sublist_code Let_def

lemmas float_eval =
  float_ascii_def py_float_def number_value_def exponent_value_def digits_value_def scale10_def

lemmas price_eval = parse_price_def re_search_price_def float_eval str_eval

lemmas term_eval =
  parse_search_term_arg_def parse_price_spec_def term_variants_of_def mk_configs_def
  str_partition_def float_comma_def float_eval str_eval

lemmas title_eval =
  is_blacklisted_title_def exclusion_cause_def gaming_phrase_def term_has_trigger_def
  DEFAULT_TITLE_BLACKLIST_def str_eval

section \<open>Price normalisation on the documented examples\<close>

text \<open>
  Claim C2. The documented examples of price normalisation are \<open>123,45 \<euro>\<close> giving
  123.45, \<open>1.234,00 \<euro>\<close> giving 1234.0, and \<open>zu verschenken\<close> and the empty text
  giving no price. The code agrees on three of them. On \<open>1.234,00 \<euro>\<close> the pattern
  stops after two digits behind the first separator: the match is \<open>1.23\<close>, the dot is
  removed, and the result is 123, not 1234. (The euro sign is code point 8364.)
\<close>

theorem parse_price_examples:
  "parse_price (py ''123,45 '' @ [8364]) = Some (12345 / 100) \<and>
   parse_price (py ''1.234,00 '' @ [8364]) = Some 123 \<and>
   re_search_price (py ''1.234,00 '' @ [8364]) = Some (py ''1.23'') \<and>
   parse_price (py ''zu verschenken'') = None \<and>
   parse_price (py []) = None"
  by (simp add: price_eval)

section \<open>The title filter on the documented examples\<close>

text \<open>
  Claim C3. For the term \<open>gaming pc\<close> the title \<open>gaming pc for sale\<close> is documented
  as not excluded, and for the term \<open>graphics card\<close> the title \<open>gaming pc bundle\<close>
  as excluded. The code excludes both. In the first case the gaming-PC phrase rule is
  switched off by the term and the entry \<open>gaming pc\<close> is skipped, but the default
  entry \<open>pc \<close> (with its trailing space) does not occur in the term, which ends in
  \<open>pc\<close>, and it occurs in the title.
\<close>

theorem title_filter_examples:
  "is_blacklisted_title (py ''gaming pc for sale'') (py ''gaming pc'') None \<and>
   exclusion_cause (py ''gaming pc for sale'') (py ''gaming pc'') None
     = Some (ByDefault (py ''pc '')) \<and>
   is_blacklisted_title (py ''gaming pc bundle'') (py ''graphics card'') None \<and>
   exclusion_cause (py ''gaming pc bundle'') (py ''graphics card'') None = Some ByGamingRule"
  by (simp add: title_eval)

section \<open>Lemmas on the title filter\<close>















section \<open>The exemption rule of the title filter\<close>



section \<open>The term parser on the documented examples\<close>

text \<open>
  Claim C6. The argument \<open>a|b:10-20\<close> yields exactly two configurations, for the
  terms \<open>a\<close> and \<open>b\<close>, both with minimum 10 and maximum 20; \<open>term:15\<close> yields one
  configuration with minimum 15 and no maximum; \<open>term:20-10\<close> is refused with the
  error for a maximum below the minimum. This holds with every \<^verbatim>\<open>float\<close> that reads
  the texts \<open>10\<close>, \<open>20\<close> and \<open>15\<close> as those numbers.
\<close>

theorem parse_search_term_arg_examples:
  assumes "float_of (py ''10'') = Some (Finite 10)"
    and "float_of (py ''20'') = Some (Finite 20)"
    and "float_of (py ''15'') = Some (Finite 15)"
  shows
  "parse_search_term_arg float_of (py ''a|b:10-20'') =
     Inr [\<lparr>c_term = py ''a'', min_price = Some (Finite 10), max_price = Some (Finite 20)\<rparr>,
          \<lparr>c_term = py ''b'', min_price = Some (Finite 10), max_price = Some (Finite 20)\<rparr>] \<and>
   parse_search_term_arg float_of (py ''term:15'') =
     Inr [\<lparr>c_term = py ''term'', min_price = Some (Finite 15), max_price = None\<rparr>] \<and>
   parse_search_term_arg float_of (py ''term:20-10'') =
     Inl (MaxLessThanMin (py ''20-10'') (py ''term:20-10''))"
  using assms
  by (simp add: parse_search_term_arg_def parse_price_spec_def term_variants_of_def
        mk_configs_def str_partition_def float_comma_def str_eval)

text \<open>The same three arguments with \<open>float_ascii\<close> for \<^verbatim>\<open>float\<close>.\<close>

theorem parse_search_term_arg_examples_witness:
  "parse_search_term_arg float_ascii (py ''a|b:10-20'') =
     Inr [\<lparr>c_term = py ''a'', min_price = Some (Finite 10), max_price = Some (Finite 20)\<rparr>,
          \<lparr>c_term = py ''b'', min_price = Some (Finite 10), max_price = Some (Finite 20)\<rparr>] \<and>
   parse_search_term_arg float_ascii (py ''term:15'') =
     Inr [\<lparr>c_term = py ''term'', min_price = Some (Finite 15), max_price = None\<rparr>] \<and>
   parse_search_term_arg float_ascii (py ''term:20-10'') =
     Inl (MaxLessThanMin (py ''20-10'') (py ''term:20-10''))"
proof -
  have "float_ascii (py ''10'') = Some (Finite 10)" "float_ascii (py ''20'') = Some (Finite 20)"
    "float_ascii (py ''15'') = Some (Finite 15)"
    by (simp_all add: float_eval str_eval)
  then show ?thesis by (rule parse_search_term_arg_examples)
qed

section \<open>Lemmas on the term parser\<close>

lemma strip_Nil [simp]: "strip [] = []"
  by (simp add: strip_def)

lemma term_variants_of_Nil [simp]: "term_variants_of [] = []"
  by (simp add: term_variants_of_def)

lemma term_variants_of_empty_iff:
  "term_variants_of s = [] \<longleftrightarrow> (\<forall>t\<in>set (split_on 124 s). strip t = [])"
  by (simp add: term_variants_of_def filter_empty_conv)

lemma term_variants_nonempty: "t \<in> set (term_variants_of s) \<Longrightarrow> t \<noteq> []"
  by (auto simp: term_variants_of_def)

lemma parse_price_spec_unfold:
  "parse_price_spec float_of arg ps =
     (if 45 \<in> set ps then
        (if low_str_of ps = [] \<or> high_str_of ps = [] then Inl (InvalidPriceRange ps arg)
         else (case float_comma float_of (low_str_of ps) of
                 None \<Rightarrow> Inl (InvalidPriceRange ps arg)
               | Some lo \<Rightarrow>
                  (case float_comma float_of (high_str_of ps) of
                     None \<Rightarrow> Inl (InvalidPriceRange ps arg)
                   | Some hi \<Rightarrow> if float_lt hi lo then Inl (MaxLessThanMin ps arg)
                                else Inr (Some lo, Some hi))))
      else (case float_comma float_of ps of
              None \<Rightarrow> Inl (InvalidPrice ps arg)
            | Some lo \<Rightarrow> Inr (Some lo, None)))"
  by (cases "str_partition 45 ps")
     (auto simp: parse_price_spec_def low_str_of_def high_str_of_def Let_def split: option.splits)

lemma parse_search_term_arg_unfold:
  "parse_search_term_arg float_of arg =
     (if term_variants_of (term_raw_of arg) = [] then Inl (EmptyTerm arg)
      else if has_colon arg then
        (if price_str_of arg = [] then Inl (MissingPrice arg)
         else (case parse_price_spec float_of arg (price_str_of arg) of
                 Inl e \<Rightarrow> Inl e
               | Inr (lo, hi) \<Rightarrow> Inr (mk_configs (term_variants_of (term_raw_of arg)) lo hi)))
      else Inr (mk_configs (term_variants_of (term_raw_of arg)) None None))"
  by (cases "str_partition 58 arg")
     (auto simp: parse_search_term_arg_def term_raw_of_def has_colon_def price_str_of_def Let_def
           split: sum.splits)

lemma map_c_term_mk_configs [simp]: "map c_term (mk_configs ts lo hi) = ts"
  by (simp add: mk_configs_def comp_def)

lemma parse_ok_terms:
  assumes "parse_search_term_arg float_of arg = Inr cfgs"
  shows "map c_term cfgs = term_variants_of (term_raw_of arg) \<and> cfgs \<noteq> []"
proof -
  from assms have ne: "term_variants_of (term_raw_of arg) \<noteq> []"
    by (auto simp: parse_search_term_arg_unfold split: if_splits)
  from assms have "map c_term cfgs = term_variants_of (term_raw_of arg)"
    by (auto simp: parse_search_term_arg_unfold split: if_splits sum.splits)
  with ne show ?thesis by auto
qed

lemmas arg_eval =
  term_raw_of_def has_colon_def price_str_of_def low_str_of_def high_str_of_def
  term_variants_of_def str_partition_def float_comma_def float_eval str_eval

lemmas parse_eval =
  parse_search_term_arg_def parse_price_spec_def term_variants_of_def mk_configs_def
  str_partition_def float_comma_def float_eval str_eval

section \<open>What the term parser refuses\<close>

text \<open>
  Claim C7, first as it fails. An empty variant between two pipes is not refused: the
  list comprehension keeps the non-empty stripped pieces only, so \<open>a| |b\<close> is parsed
  into the two terms \<open>a\<close> and \<open>b\<close>, whatever \<^verbatim>\<open>float\<close> is (here \<open>float_ascii\<close>).
\<close>

theorem parse_search_term_arg_drops_empty_variant:
  "parse_search_term_arg float_ascii (py ''a| |b'') =
     Inr [\<lparr>c_term = py ''a'', min_price = None, max_price = None\<rparr>,
          \<lparr>c_term = py ''b'', min_price = None, max_price = None\<rparr>]"
  by (simp add: parse_eval)

text \<open>
  Claim C7, as amended. For every \<^verbatim>\<open>float\<close> and every argument: the argument is
  refused with the empty-term error when no piece of its term group is non-empty after
  stripping (an empty group included); an accepted argument yields one configuration per
  non-empty piece, in order, none with an empty term. With at least one term and a
  \<open>:\<close>, the argument is refused when the price text is empty; when it has no \<open>-\<close>
  and \<^verbatim>\<open>float\<close> raises on it; when it has a \<open>-\<close> and a side of the first \<open>-\<close> is
  empty or \<^verbatim>\<open>float\<close> raises on it; and when both sides are read and the maximum is
  less than the minimum as floats compare. In every other case it is accepted with the
  bounds \<^verbatim>\<open>float\<close> returned.
\<close>

theorem parse_search_term_arg_rejects:
  "((\<forall>t\<in>set (split_on 124 (term_raw_of arg)). strip t = []) \<longrightarrow>
      parse_search_term_arg float_of arg = Inl (EmptyTerm arg)) \<and>
   (parse_search_term_arg float_of arg = Inr cfgs \<longrightarrow>
      map c_term cfgs = term_variants_of (term_raw_of arg) \<and> cfgs \<noteq> [] \<and>
      (\<forall>c\<in>set cfgs. c_term c \<noteq> [])) \<and>
   (term_variants_of (term_raw_of arg) \<noteq> [] \<and> has_colon arg \<longrightarrow>
      (price_str_of arg = [] \<longrightarrow> parse_search_term_arg float_of arg = Inl (MissingPrice arg)) \<and>
      (price_str_of arg \<noteq> [] \<and> 45 \<notin> set (price_str_of arg) \<and>
       float_comma float_of (price_str_of arg) = None \<longrightarrow>
         parse_search_term_arg float_of arg = Inl (InvalidPrice (price_str_of arg) arg)) \<and>
      (price_str_of arg \<noteq> [] \<and> 45 \<notin> set (price_str_of arg) \<and>
       float_comma float_of (price_str_of arg) = Some lo \<longrightarrow>
         parse_search_term_arg float_of arg
           = Inr (mk_configs (term_variants_of (term_raw_of arg)) (Some lo) None)) \<and>
      (45 \<in> set (price_str_of arg) \<and>
       (low_str_of (price_str_of arg) = [] \<or> high_str_of (price_str_of arg) = [] \<or>
        float_comma float_of (low_str_of (price_str_of arg)) = None \<or>
        float_comma float_of (high_str_of (price_str_of arg)) = None) \<longrightarrow>
         parse_search_term_arg float_of arg = Inl (InvalidPriceRange (price_str_of arg) arg)) \<and>
      (45 \<in> set (price_str_of arg) \<and>
       low_str_of (price_str_of arg) \<noteq> [] \<and> high_str_of (price_str_of arg) \<noteq> [] \<and>
       float_comma float_of (low_str_of (price_str_of arg)) = Some lo \<and>
       float_comma float_of (high_str_of (price_str_of arg)) = Some hi \<longrightarrow>
         parse_search_term_arg float_of arg
           = (if float_lt hi lo then Inl (MaxLessThanMin (price_str_of arg) arg)
              else Inr (mk_configs (term_variants_of (term_raw_of arg)) (Some lo) (Some hi)))))"
proof -
  let ?ps = "price_str_of arg"
  have a: "(\<forall>t\<in>set (split_on 124 (term_raw_of arg)). strip t = []) \<longrightarrow>
      parse_search_term_arg float_of arg = Inl (EmptyTerm arg)"
    by (simp add: parse_search_term_arg_unfold term_variants_of_empty_iff)
  have b: "parse_search_term_arg float_of arg = Inr cfgs \<longrightarrow>
      map c_term cfgs = term_variants_of (term_raw_of arg) \<and> cfgs \<noteq> [] \<and>
      (\<forall>c\<in>set cfgs. c_term c \<noteq> [])"
  proof
    assume ok: "parse_search_term_arg float_of arg = Inr cfgs"
    from parse_ok_terms[OF ok]
    have m: "map c_term cfgs = term_variants_of (term_raw_of arg)" and ne: "cfgs \<noteq> []"
      by auto
    have "c_term c \<noteq> []" if "c \<in> set cfgs" for c
    proof -
      from that have "c_term c \<in> set (map c_term cfgs)" by simp
      then show ?thesis unfolding m by (rule term_variants_nonempty)
    qed
    with m ne show "map c_term cfgs = term_variants_of (term_raw_of arg) \<and> cfgs \<noteq> [] \<and>
      (\<forall>c\<in>set cfgs. c_term c \<noteq> [])" by blast
  qed
  have c: "term_variants_of (term_raw_of arg) \<noteq> [] \<and> has_colon arg \<longrightarrow>
      (?ps = [] \<longrightarrow> parse_search_term_arg float_of arg = Inl (MissingPrice arg)) \<and>
      (?ps \<noteq> [] \<and> 45 \<notin> set ?ps \<and> float_comma float_of ?ps = None \<longrightarrow>
         parse_search_term_arg float_of arg = Inl (InvalidPrice ?ps arg)) \<and>
      (?ps \<noteq> [] \<and> 45 \<notin> set ?ps \<and> float_comma float_of ?ps = Some lo \<longrightarrow>
         parse_search_term_arg float_of arg
           = Inr (mk_configs (term_variants_of (term_raw_of arg)) (Some lo) None)) \<and>
      (45 \<in> set ?ps \<and>
       (low_str_of ?ps = [] \<or> high_str_of ?ps = [] \<or>
        float_comma float_of (low_str_of ?ps) = None \<or>
        float_comma float_of (high_str_of ?ps) = None) \<longrightarrow>
         parse_search_term_arg float_of arg = Inl (InvalidPriceRange ?ps arg)) \<and>
      (45 \<in> set ?ps \<and> low_str_of ?ps \<noteq> [] \<and> high_str_of ?ps \<noteq> [] \<and>
       float_comma float_of (low_str_of ?ps) = Some lo \<and>
       float_comma float_of (high_str_of ?ps) = Some hi \<longrightarrow>
         parse_search_term_arg float_of arg
           = (if float_lt hi lo then Inl (MaxLessThanMin ?ps arg)
              else Inr (mk_configs (term_variants_of (term_raw_of arg)) (Some lo) (Some hi))))"
    by (auto simp: parse_search_term_arg_unfold parse_price_spec_unfold split: option.splits)
  from a b c show ?thesis by blast
qed

text \<open>
  The amended claim at concrete arguments, with \<open>float_ascii\<close> for \<^verbatim>\<open>float\<close>: the
  five refusals, the dropped empty variant, and two arguments that are accepted because
  \<^verbatim>\<open>float\<close> reads \<open>nan\<close> and \<open>inf\<close>.
\<close>

theorem parse_search_term_arg_rejects_witness:
  "parse_search_term_arg float_ascii (py '' | '') = Inl (EmptyTerm (py '' | '')) \<and>
   parse_search_term_arg float_ascii (py ''a:'') = Inl (MissingPrice (py ''a:'')) \<and>
   parse_search_term_arg float_ascii (py ''a:x'') = Inl (InvalidPrice (py ''x'') (py ''a:x'')) \<and>
   parse_search_term_arg float_ascii (py ''a:1-x'')
     = Inl (InvalidPriceRange (py ''1-x'') (py ''a:1-x'')) \<and>
   parse_search_term_arg float_ascii (py ''a:20-10'')
     = Inl (MaxLessThanMin (py ''20-10'') (py ''a:20-10'')) \<and>
   (\<exists>cfgs. parse_search_term_arg float_ascii (py ''a| |b'') = Inr cfgs \<and>
           map c_term cfgs = [py ''a'', py ''b'']) \<and>
   parse_search_term_arg float_ascii (py ''a:nan'')
     = Inr [\<lparr>c_term = py ''a'', min_price = Some NaN, max_price = None\<rparr>] \<and>
   parse_search_term_arg float_ascii (py ''a:1-inf'')
     = Inr [\<lparr>c_term = py ''a'', min_price = Some (Finite 1), max_price = Some PosInf\<rparr>]"
proof -
  have "\<forall>t\<in>set (split_on 124 (term_raw_of (py '' | ''))). strip t = []"
    by (simp add: arg_eval)
  with parse_search_term_arg_rejects[of "py '' | ''" float_ascii "[]" NaN NaN]
  have r1: "parse_search_term_arg float_ascii (py '' | '') = Inl (EmptyTerm (py '' | ''))"
    by blast
  have "term_variants_of (term_raw_of (py ''a:'')) \<noteq> []" "has_colon (py ''a:'')"
    "price_str_of (py ''a:'') = []"
    by (simp_all add: arg_eval)
  with parse_search_term_arg_rejects[of "py ''a:''" float_ascii "[]" NaN NaN]
  have r2: "parse_search_term_arg float_ascii (py ''a:'') = Inl (MissingPrice (py ''a:''))"
    by blast
  have p3: "price_str_of (py ''a:x'') = py ''x''"
    by (simp add: arg_eval)
  have "term_variants_of (term_raw_of (py ''a:x'')) \<noteq> []" "has_colon (py ''a:x'')"
    "price_str_of (py ''a:x'') \<noteq> []" "45 \<notin> set (price_str_of (py ''a:x''))"
    "float_comma float_ascii (price_str_of (py ''a:x'')) = None"
    by (simp_all add: arg_eval)
  with parse_search_term_arg_rejects[of "py ''a:x''" float_ascii "[]" NaN NaN]
  have "parse_search_term_arg float_ascii (py ''a:x'')
          = Inl (InvalidPrice (price_str_of (py ''a:x'')) (py ''a:x''))"
    by blast
  then have r3: "parse_search_term_arg float_ascii (py ''a:x'')
          = Inl (InvalidPrice (py ''x'') (py ''a:x''))"
    by (simp only: p3)
  have p4: "price_str_of (py ''a:1-x'') = py ''1-x''"
    by (simp add: arg_eval)
  have "term_variants_of (term_raw_of (py ''a:1-x'')) \<noteq> []" "has_colon (py ''a:1-x'')"
    "45 \<in> set (price_str_of (py ''a:1-x''))"
    "float_comma float_ascii (high_str_of (price_str_of (py ''a:1-x''))) = None"
    by (simp_all add: arg_eval)
  with parse_search_term_arg_rejects[of "py ''a:1-x''" float_ascii "[]" NaN NaN]
  have "parse_search_term_arg float_ascii (py ''a:1-x'')
          = Inl (InvalidPriceRange (price_str_of (py ''a:1-x'')) (py ''a:1-x''))"
    by blast
  then have r4: "parse_search_term_arg float_ascii (py ''a:1-x'')
          = Inl (InvalidPriceRange (py ''1-x'') (py ''a:1-x''))"
    by (simp only: p4)
  have p5: "price_str_of (py ''a:20-10'') = py ''20-10''"
    by (simp add: arg_eval)
  have "term_variants_of (term_raw_of (py ''a:20-10'')) \<noteq> []" "has_colon (py ''a:20-10'')"
    "45 \<in> set (price_str_of (py ''a:20-10''))"
    "low_str_of (price_str_of (py ''a:20-10'')) \<noteq> []"
    "high_str_of (price_str_of (py ''a:20-10'')) \<noteq> []"
    "float_comma float_ascii (low_str_of (price_str_of (py ''a:20-10''))) = Some (Finite 20)"
    "float_comma float_ascii (high_str_of (price_str_of (py ''a:20-10''))) = Some (Finite 10)"
    by (simp_all add: arg_eval)
  with parse_search_term_arg_rejects[of "py ''a:20-10''" float_ascii "[]" "Finite 20" "Finite 10"]
  have "parse_search_term_arg float_ascii (py ''a:20-10'')
          = (if float_lt (Finite 10) (Finite 20)
             then Inl (MaxLessThanMin (price_str_of (py ''a:20-10'')) (py ''a:20-10''))
             else Inr (mk_configs (term_variants_of (term_raw_of (py ''a:20-10'')))
                         (Some (Finite 20)) (Some (Finite 10))))"
    by blast
  then have "parse_search_term_arg float_ascii (py ''a:20-10'')
          = Inl (MaxLessThanMin (price_str_of (py ''a:20-10'')) (py ''a:20-10''))"
    by simp
  then have r5: "parse_search_term_arg float_ascii (py ''a:20-10'')
          = Inl (MaxLessThanMin (py ''20-10'') (py ''a:20-10''))"
    by (simp only: p5)
  have v6: "term_variants_of (term_raw_of (py ''a| |b'')) = [py ''a'', py ''b'']"
    by (simp add: arg_eval)
  obtain cfgs where ok: "parse_search_term_arg float_ascii (py ''a| |b'') = Inr cfgs"
    by (simp add: parse_eval)
  with parse_search_term_arg_rejects[of "py ''a| |b''" float_ascii cfgs NaN NaN]
  have "map c_term cfgs = term_variants_of (term_raw_of (py ''a| |b''))"
    by blast
  then have m: "map c_term cfgs = [py ''a'', py ''b'']"
    by (simp only: v6)
  have r6: "\<exists>cfgs. parse_search_term_arg float_ascii (py ''a| |b'') = Inr cfgs \<and>
      map c_term cfgs = [py ''a'', py ''b'']"
    by (rule exI[of _ cfgs], rule conjI, rule ok, rule m)
  have v7: "mk_configs (term_variants_of (term_raw_of (py ''a:nan''))) (Some NaN) None
          = [\<lparr>c_term = py ''a'', min_price = Some NaN, max_price = None\<rparr>]"
    by (simp add: mk_configs_def arg_eval)
  have "term_variants_of (term_raw_of (py ''a:nan'')) \<noteq> []" "has_colon (py ''a:nan'')"
    "price_str_of (py ''a:nan'') \<noteq> []" "45 \<notin> set (price_str_of (py ''a:nan''))"
    "float_comma float_ascii (price_str_of (py ''a:nan'')) = Some NaN"
    by (simp_all add: arg_eval)
  with parse_search_term_arg_rejects[of "py ''a:nan''" float_ascii "[]" NaN NaN]
  have "parse_search_term_arg float_ascii (py ''a:nan'')
          = Inr (mk_configs (term_variants_of (term_raw_of (py ''a:nan''))) (Some NaN) None)"
    by blast
  then have r7: "parse_search_term_arg float_ascii (py ''a:nan'')
          = Inr [\<lparr>c_term = py ''a'', min_price = Some NaN, max_price = None\<rparr>]"
    by (simp only: v7)
  have v8: "mk_configs (term_variants_of (term_raw_of (py ''a:1-inf'')))
              (Some (Finite 1)) (Some PosInf)
          = [\<lparr>c_term = py ''a'', min_price = Some (Finite 1), max_price = Some PosInf\<rparr>]"
    by (simp add: mk_configs_def arg_eval)
  have "term_variants_of (term_raw_of (py ''a:1-inf'')) \<noteq> []" "has_colon (py ''a:1-inf'')"
    "45 \<in> set (price_str_of (py ''a:1-inf''))"
    "low_str_of (price_str_of (py ''a:1-inf'')) \<noteq> []"
    "high_str_of (price_str_of (py ''a:1-inf'')) \<noteq> []"
    "float_comma float_ascii (low_str_of (price_str_of (py ''a:1-inf''))) = Some (Finite 1)"
    "float_comma float_ascii (high_str_of (price_str_of (py ''a:1-inf''))) = Some PosInf"
    by (simp_all add: arg_eval)
  with parse_search_term_arg_rejects[of "py ''a:1-inf''" float_ascii "[]" "Finite 1" PosInf]
  have "parse_search_term_arg float_ascii (py ''a:1-inf'')
          = (if float_lt PosInf (Finite 1)
             then Inl (MaxLessThanMin (price_str_of (py ''a:1-inf'')) (py ''a:1-inf''))
             else Inr (mk_configs (term_variants_of (term_raw_of (py ''a:1-inf'')))
                         (Some (Finite 1)) (Some PosInf)))"
    by blast
  then have "parse_search_term_arg float_ascii (py ''a:1-inf'')
          = Inr (mk_configs (term_variants_of (term_raw_of (py ''a:1-inf'')))
                   (Some (Finite 1)) (Some PosInf))"
    by simp
  then have r8: "parse_search_term_arg float_ascii (py ''a:1-inf'')
          = Inr [\<lparr>c_term = py ''a'', min_price = Some (Finite 1), max_price = Some PosInf\<rparr>]"
    by (simp only: v8)
  from r1 r2 r3 r4 r5 r6 r7 r8 show ?thesis by blast
qed

section \<open>The price-range filter\<close>

lemma price_loop_filter:
  "price_loop lo hi listings all_hits
     = all_hits @ filter (\<lambda>l. not_outside lo hi (price l)) listings"
  by (induction listings arbitrary: all_hits)
     (auto simp: not_outside_def below_min_def above_max_def split: option.splits)

lemma effective_is_bound: "effective own global = effective_bound own global"
  by (simp add: effective_def effective_bound_def split: option.splits)

lemma float_lt_le: "a \<noteq> NaN \<Longrightarrow> b \<noteq> NaN \<Longrightarrow> float_lt a b \<longleftrightarrow> \<not> float_le b a"
  by (cases a; cases b) auto

lemma not_outside_in_range:
  assumes "lo \<noteq> Some NaN" "hi \<noteq> Some NaN"
  shows "not_outside lo hi p \<longleftrightarrow> in_range lo hi p"
  using assms
  by (auto simp: not_outside_def in_range_def float_lt_le split: option.splits)

lemma collect_hits_concat:
  "collect_hits source gmin gmax extra cfgs all_hits =
     all_hits @
     concat (map (\<lambda>cfg. case fetch_listings_for_term source (c_term cfg) extra of
                          None \<Rightarrow> []
                        | Some listings \<Rightarrow>
                            filter (\<lambda>l. not_outside (effective_bound (min_price cfg) gmin)
                                                     (effective_bound (max_price cfg) gmax)
                                                     (price l))
                              listings)
                 cfgs)"
  by (induction cfgs arbitrary: all_hits)
     (auto simp: price_loop_filter effective_is_bound split: option.splits)

text \<open>
  Claim C8, first as it fails. A bound can be NaN: \<^verbatim>\<open>float\<close> reads \<open>nan\<close>, so the
  argument \<open>laptop:nan\<close> is a configuration whose minimum is NaN (and the option for
  the run's minimum takes \<open>nan\<close> too). Both tests of the loop are then false and the
  listing stays, although NaN is not less than or equal to its price.
\<close>

theorem price_range_filter_nan:
  "parse_search_term_arg float_ascii (py ''laptop:nan'')
     = Inr [\<lparr>c_term = py ''laptop'', min_price = Some NaN, max_price = None\<rparr>] \<and>
   price_loop (effective (Some NaN) None) (effective None None) [listing_b] [] = [listing_b] \<and>
   \<not> in_range (effective_bound (Some NaN) None) (effective_bound None None) (price listing_b)"
  by (simp add: parse_eval effective_def effective_bound_def below_min_def above_max_def
        in_range_def)

text \<open>
  Claim C8, as amended. Under a configuration, the listings of its term that are
  appended to the hits are exactly those whose price is neither less than the effective
  minimum nor greater than the effective maximum as floats compare, in their order; an
  absent bound leaves its side open, and the effective bound is the configuration's own
  where set and the run's otherwise. When neither effective bound is NaN, these are
  exactly the listings with minimum \<open>\<le>\<close> price \<open>\<le>\<close> maximum. The first equation
  is the whole loop over the configurations, the second the inner loop alone.
\<close>

theorem price_range_filter:
  "collect_hits source gmin gmax extra cfgs all_hits =
     all_hits @
     concat (map (\<lambda>cfg. case fetch_listings_for_term source (c_term cfg) extra of
                          None \<Rightarrow> []
                        | Some listings \<Rightarrow>
                            filter (\<lambda>l. not_outside (effective_bound (min_price cfg) gmin)
                                                     (effective_bound (max_price cfg) gmax)
                                                     (price l))
                              listings)
                 cfgs) \<and>
   price_loop (effective (min_price cfg) gmin) (effective (max_price cfg) gmax) ls all_hits =
     all_hits @
     filter (\<lambda>l. not_outside (effective_bound (min_price cfg) gmin)
                              (effective_bound (max_price cfg) gmax) (price l)) ls \<and>
   (effective_bound (min_price cfg) gmin \<noteq> Some NaN \<and>
    effective_bound (max_price cfg) gmax \<noteq> Some NaN \<longrightarrow>
      price_loop (effective (min_price cfg) gmin) (effective (max_price cfg) gmax) ls all_hits =
        all_hits @
        filter (\<lambda>l. in_range (effective_bound (min_price cfg) gmin)
                              (effective_bound (max_price cfg) gmax) (price l)) ls)"
  by (simp add: collect_hits_concat price_loop_filter effective_is_bound not_outside_in_range)

section \<open>Lemmas on deduplication and sorting\<close>

lemma dedup_loop_keep_first:
  "dedup_loop xs seen acc = acc @ keep_first (filter (\<lambda>l. url l \<notin> seen) xs)"
proof (induction xs arbitrary: seen acc)
  case Nil
  then show ?case by simp
next
  case (Cons l ls)
  have "filter (\<lambda>m. url m \<noteq> url l) (filter (\<lambda>m. url m \<notin> seen) ls)
          = filter (\<lambda>m. url m \<notin> insert (url l) seen) ls"
    by (simp add: conj_commute)
  with Cons show ?case by simp
qed

lemma find_filter_implied:
  "(\<And>x. P x \<Longrightarrow> Q x) \<Longrightarrow> find P (filter Q xs) = find P xs"
  by (induction xs) auto

lemma find_keep_first:
  "find (\<lambda>l. url l = u) (keep_first xs) = find (\<lambda>l. url l = u) xs"
proof (induction xs rule: keep_first.induct)
  case 1
  then show ?case by simp
next
  case (2 l ls)
  show ?case
  proof (cases "url l = u")
    case True
    then show ?thesis by simp
  next
    case False
    then have "find (\<lambda>l. url l = u) (filter (\<lambda>m. url m \<noteq> url l) ls) = find (\<lambda>l. url l = u) ls"
      by (intro find_filter_implied) auto
    with 2 False show ?thesis by simp
  qed
qed

lemma set_keep_first: "set (keep_first xs) \<subseteq> set xs"
  by (induction xs rule: keep_first.induct) auto

lemma keep_first_urls: "url ` set (keep_first xs) = url ` set xs"
  by (induction xs rule: keep_first.induct) auto

lemma distinct_keep_first: "distinct (map url (keep_first xs))"
proof (induction xs rule: keep_first.induct)
  case 1
  then show ?case by simp
next
  case (2 l ls)
  have "url l \<notin> url ` set (keep_first (filter (\<lambda>m. url m \<noteq> url l) ls))"
    unfolding keep_first_urls by auto
  with 2 show ?case by simp
qed

lemma find_unique:
  "distinct (map f xs) \<Longrightarrow> x \<in> set xs \<Longrightarrow> find (\<lambda>y. f y = f x) xs = Some x"
  by (induction xs) (auto simp: rev_image_eqI)

lemma find_same_set:
  assumes "distinct (map f xs)" "distinct (map f ys)" "set xs = set ys"
  shows "find (\<lambda>y. f y = u) xs = find (\<lambda>y. f y = u) ys"
proof (cases "\<exists>x\<in>set xs. f x = u")
  case True
  then obtain x where "x \<in> set xs" "f x = u" by auto
  with assms find_unique[of f xs x] find_unique[of f ys x] show ?thesis by simp
next
  case False
  with assms(3) have "find (\<lambda>y. f y = u) xs = None" "find (\<lambda>y. f y = u) ys = None"
    by (simp_all add: find_None_iff)
  then show ?thesis by simp
qed

lemma distinct_map_sort_key:
  "distinct (map f (sort_key k xs)) = distinct (map f xs)"
  by (simp add: distinct_map)

text \<open>
  Claim C4. For every list of hits, the deduplication loop keeps exactly the first
  listing met for each URL, in the order of first occurrence; the result of
  deduplicating and sorting holds, for every URL, the first listing of the input with
  that URL and no other, so no URL occurs twice and every element is one of the input;
  it is ascending in price, and listings of equal price stand in the order the
  deduplication left them in.
\<close>

theorem dedup_and_sort_correct:
  "dedup_loop all_hits {} [] = keep_first all_hits \<and>
   (\<forall>u. find (\<lambda>l. url l = u) (dedup_and_sort all_hits) = find (\<lambda>l. url l = u) all_hits) \<and>
   distinct (map url (dedup_and_sort all_hits)) \<and>
   set (dedup_and_sort all_hits) \<subseteq> set all_hits \<and>
   sorted (map price (dedup_and_sort all_hits)) \<and>
   (\<forall>p. filter (\<lambda>l. price l = p) (dedup_and_sort all_hits)
         = filter (\<lambda>l. price l = p) (keep_first all_hits))"
proof -
  have d: "dedup_loop all_hits {} [] = keep_first all_hits"
    by (simp add: dedup_loop_keep_first)
  have s: "dedup_and_sort all_hits = sort_key price (keep_first all_hits)"
    by (simp add: dedup_and_sort_def d)
  have dist: "distinct (map url (dedup_and_sort all_hits))"
    by (simp add: s distinct_map_sort_key distinct_keep_first)
  have "find (\<lambda>l. url l = u) (dedup_and_sort all_hits) = find (\<lambda>l. url l = u) all_hits" for u
  proof -
    have "find (\<lambda>l. url l = u) (dedup_and_sort all_hits)
            = find (\<lambda>l. url l = u) (keep_first all_hits)"
      using dist by (intro find_same_set) (simp_all add: s distinct_keep_first)
    then show ?thesis by (simp add: find_keep_first)
  qed
  moreover have "set (dedup_and_sort all_hits) \<subseteq> set all_hits"
    by (simp add: s set_keep_first)
  moreover have "sorted (map price (dedup_and_sort all_hits))"
    by (simp add: s)
  moreover have "filter (\<lambda>l. price l = p) (dedup_and_sort all_hits)
         = filter (\<lambda>l. price l = p) (keep_first all_hits)" for p
    by (simp add: s sort_key_stable)
  ultimately show ?thesis using d dist by blast
qed

section \<open>Lemmas on the seen-state store\<close>

lemma say_fields [simp]:
  "store (say m w) = store w" "fs_calls (say m w) = fs_calls w"
  "sink_calls (say m w) = sink_calls w" "printed (say m w) = printed w @ [m]"
  by (simp_all add: say_def)

lemma load_frame:
  assumes "load_seen_urls w = Inr (seen, w1)"
  shows "store w1 = store w" "fs_calls w1 = fs_calls w" "sink_calls w1 = sink_calls w"
    "finite seen" "store w \<noteq> DecodeRaises"
  using assms by (auto simp: load_seen_urls_def split: state_file.splits)



lemma load_raises: "load_seen_urls w = Inl e \<Longrightarrow> store w = DecodeRaises \<and> e = DecodeError"
  by (auto simp: load_seen_urls_def split: state_file.splits)



lemma filter_new_listings_unfold:
  assumes "load_seen_urls w = Inr (seen, w1)"
  shows "filter_new_listings d listings w =
     (if filter (\<lambda>l. url l \<notin> seen) listings = [] then Inr ([], w1)
      else (case save_seen_urls d (seen \<union> set (map url (filter (\<lambda>l. url l \<notin> seen) listings))) w1 of
              Inl e \<Rightarrow> Inl e
            | Inr w2 \<Rightarrow> Inr (filter (\<lambda>l. url l \<notin> seen) listings, w2)))"
  using assms by (simp add: filter_new_listings_def Let_def)

lemma filter_new_load_raises:
  "load_seen_urls w = Inl e \<Longrightarrow> filter_new_listings d listings w = Inl e"
  by (simp add: filter_new_listings_def)

lemma filter_new_loaded:
  assumes "filter_new_listings d listings w = Inr (new, w')"
  obtains seen w1 where "load_seen_urls w = Inr (seen, w1)"
  using assms by (cases "load_seen_urls w") (auto simp: filter_new_listings_def)

lemma filter_new_all_seen:
  assumes "load_seen_urls w = Inr (seen, w1)" "\<forall>l\<in>set listings. url l \<in> seen"
  shows "filter_new_listings d listings w = Inr ([], w1)"
proof -
  from assms(2) have "filter (\<lambda>l. url l \<notin> seen) listings = []"
    by (simp add: filter_empty_conv)
  then show ?thesis by (simp add: filter_new_listings_unfold[OF assms(1)])
qed

lemma filter_new_written:
  assumes "filter_new_listings d listings w = Inr (new, w')" "new = []"
  shows "store w' = store w \<and> fs_calls w' = fs_calls w \<and> sink_calls w' = sink_calls w"
proof -
  from assms(1) obtain seen w1 where l: "load_seen_urls w = Inr (seen, w1)"
    by (rule filter_new_loaded)
  from assms have "w' = w1"
    by (auto simp: filter_new_listings_unfold[OF l] split: if_splits sum.splits)
  with load_frame[OF l] show ?thesis by simp
qed



lemma notify_sinks_fields [simp]:
  "store (notify_sinks em nt new w) = store w"
  "fs_calls (notify_sinks em nt new w) = fs_calls w"
  "printed (notify_sinks em nt new w) = printed w"
  by (simp_all add: notify_sinks_def)



section \<open>Loading the seen state\<close>

text \<open>
  Claim C9, first as it fails. A missing state file is not reported: the branch for
  \<^verbatim>\<open>FileNotFoundError\<close> returns the empty set and prints nothing.
\<close>

theorem load_seen_urls_missing_silent:
  "load_seen_urls \<lparr>store = Missing, fs_calls = [], printed = [], sink_calls = []\<rparr>
     = Inr ({}, \<lparr>store = Missing, fs_calls = [], printed = [], sink_calls = []\<rparr>)"
  by (simp add: load_seen_urls_def)

text \<open>
  Claim C9, as amended. For a missing file, an unreadable file, a text on which
  \<^verbatim>\<open>json.loads\<close> raises \<^verbatim>\<open>JSONDecodeError\<close>, and JSON that is not a list, loading
  returns the empty set and does not raise; it prints nothing for the missing file and
  exactly one warning in the three other cases, and changes nothing else. A list of
  strings loads as the set of those strings, with nothing printed. (A text on which
  \<^verbatim>\<open>json.loads\<close> raises another exception is none of these cases; the lemma
  \<open>load_seen_urls_decode_escapes\<close> above is what the function does with it.)
\<close>

theorem load_seen_urls_total:
  "(store w \<in> {Missing, Unreadable, NotJson, JsonNotList} \<longrightarrow>
      (\<exists>w1. load_seen_urls w = Inr ({}, w1) \<and>
            store w1 = store w \<and> fs_calls w1 = fs_calls w \<and> sink_calls w1 = sink_calls w \<and>
            (store w = Missing \<longrightarrow> printed w1 = printed w) \<and>
            (store w = Unreadable \<longrightarrow> printed w1 = printed w @ [WarnRead]) \<and>
            (store w = NotJson \<longrightarrow> printed w1 = printed w @ [WarnParse]) \<and>
            (store w = JsonNotList \<longrightarrow> printed w1 = printed w @ [WarnFormat]))) \<and>
   (store w = JsonList (map JStr urls) \<longrightarrow> load_seen_urls w = Inr (set urls, w))"
  by (auto simp: load_seen_urls_def comp_def split: state_file.splits)

theorem load_seen_urls_total_witness:
  "load_seen_urls \<lparr>store = NotJson, fs_calls = [], printed = [], sink_calls = []\<rparr>
     = Inr ({}, \<lparr>store = NotJson, fs_calls = [], printed = [WarnParse], sink_calls = []\<rparr>) \<and>
   load_seen_urls \<lparr>store = JsonList [JStr (py ''u1''), JStr (py ''u2'')], fs_calls = [],
                   printed = [], sink_calls = []\<rparr>
     = Inr ({py ''u1'', py ''u2''},
            \<lparr>store = JsonList [JStr (py ''u1''), JStr (py ''u2'')], fs_calls = [],
             printed = [], sink_calls = []\<rparr>)"
proof -
  let ?w = "\<lparr>store = NotJson, fs_calls = [], printed = [], sink_calls = []\<rparr>"
  from load_seen_urls_total[of ?w "[]"]
  obtain w1 where "load_seen_urls ?w = Inr ({}, w1)" "store w1 = NotJson" "fs_calls w1 = []"
    "sink_calls w1 = []" "printed w1 = [WarnParse]"
    by auto
  then have a: "load_seen_urls ?w
     = Inr ({}, \<lparr>store = NotJson, fs_calls = [], printed = [WarnParse], sink_calls = []\<rparr>)"
    by (cases w1) simp
  from load_seen_urls_total[of "\<lparr>store = JsonList [JStr (py ''u1''), JStr (py ''u2'')],
      fs_calls = [], printed = [], sink_calls = []\<rparr>" "[py ''u1'', py ''u2'']"]
  have b: "load_seen_urls \<lparr>store = JsonList [JStr (py ''u1''), JStr (py ''u2'')], fs_calls = [],
                   printed = [], sink_calls = []\<rparr>
     = Inr ({py ''u1'', py ''u2''},
            \<lparr>store = JsonList [JStr (py ''u1''), JStr (py ''u2'')], fs_calls = [],
             printed = [], sink_calls = []\<rparr>)"
    by simp
  from a b show ?thesis by (rule conjI)
qed

section \<open>No new listing, no write\<close>

text \<open>
  Claim C10. When the seen set is loaded and holds the URL of every listing handed to
  the filter, the filter returns the empty list, the state file is as it was and no
  file-system call has been issued. Whenever the filter returns and the state file or
  the list of file-system calls has changed, it returns at least one new listing. When
  loading raises, the filter raises the same exception, before anything is written.
\<close>

theorem no_new_listings_no_write:
  "(load_seen_urls w = Inr (seen, w1) \<and> (\<forall>l\<in>set listings. url l \<in> seen) \<longrightarrow>
      (\<exists>w'. filter_new_listings d listings w = Inr ([], w') \<and>
            store w' = store w \<and> fs_calls w' = fs_calls w)) \<and>
   (filter_new_listings d listings w = Inr (new, w2) \<and>
      (store w2 \<noteq> store w \<or> fs_calls w2 \<noteq> fs_calls w) \<longrightarrow> new \<noteq> []) \<and>
   (load_seen_urls w = Inl e \<longrightarrow> filter_new_listings d listings w = Inl e)"
proof -
  have a: "load_seen_urls w = Inr (seen, w1) \<and> (\<forall>l\<in>set listings. url l \<in> seen) \<longrightarrow>
      (\<exists>w'. filter_new_listings d listings w = Inr ([], w') \<and>
            store w' = store w \<and> fs_calls w' = fs_calls w)"
  proof
    assume h: "load_seen_urls w = Inr (seen, w1) \<and> (\<forall>l\<in>set listings. url l \<in> seen)"
    then have "filter_new_listings d listings w = Inr ([], w1)"
      by (intro filter_new_all_seen) auto
    moreover from h have "store w1 = store w" "fs_calls w1 = fs_calls w"
      by (auto dest: load_frame)
    ultimately show "\<exists>w'. filter_new_listings d listings w = Inr ([], w') \<and>
            store w' = store w \<and> fs_calls w' = fs_calls w"
      by blast
  qed
  have b: "filter_new_listings d listings w = Inr (new, w2) \<and>
      (store w2 \<noteq> store w \<or> fs_calls w2 \<noteq> fs_calls w) \<longrightarrow> new \<noteq> []"
    using filter_new_written[of d listings w new w2] by blast
  have c: "load_seen_urls w = Inl e \<longrightarrow> filter_new_listings d listings w = Inl e"
    by (simp add: filter_new_load_raises)
  from a b c show ?thesis by blast
qed

section \<open>Idempotence of notify mode\<close>


section \<open>The worked example, run\<close>

lemmas engine_eval =
  find_matching_listings_def dedup_and_sort_def to_config_def fetch_listings_for_term_def
  listing_of_ad_def BASE_URL_def List.map_filter_def effective_def below_min_def above_max_def
  example_source_def example_ads_def listing_b_def title_eval price_eval


lemma example_laptop_all:
  "map price (find_matching_listings example_source [Plain (py ''laptop''), Plain (py ''Laptop'')] None None None)
    = [50, 150, 9999]"
  by (simp add: engine_eval)


text \<open>
  The inner loop under a configuration with the bounds 100 and 300, the run's maximum
  being 5: of the prices 50, 150 and 9999 the middle one stays.
\<close>

theorem price_range_filter_witness:
  "price_loop
     (effective (min_price \<lparr>c_term = py ''laptop'', min_price = Some (Finite 100),
                            max_price = Some (Finite 300)\<rparr>) None)
     (effective (max_price \<lparr>c_term = py ''laptop'', min_price = Some (Finite 100),
                            max_price = Some (Finite 300)\<rparr>) (Some (Finite 5)))
     [listing_b\<lparr>price := 50\<rparr>, listing_b, listing_b\<lparr>price := 9999\<rparr>] []
   = [listing_b]"
proof -
  let ?cfg = "\<lparr>c_term = py ''laptop'', min_price = Some (Finite 100),
              max_price = Some (Finite 300)\<rparr>"
  let ?ls = "[listing_b\<lparr>price := 50\<rparr>, listing_b, listing_b\<lparr>price := 9999\<rparr>]"
  have "effective_bound (min_price ?cfg) None \<noteq> Some NaN"
    "effective_bound (max_price ?cfg) (Some (Finite 5)) \<noteq> Some NaN"
    by (simp_all add: effective_bound_def)
  with price_range_filter[where cfg = ?cfg and gmin = None and gmax = "Some (Finite 5)"
      and ls = ?ls and all_hits = "[]"]
  have "price_loop (effective (min_price ?cfg) None)
          (effective (max_price ?cfg) (Some (Finite 5))) ?ls []
        = [] @ filter (\<lambda>l. in_range (effective_bound (min_price ?cfg) None)
                (effective_bound (max_price ?cfg) (Some (Finite 5))) (price l)) ?ls"
    by blast
  also have "\<dots> = [listing_b]"
    by (simp add: in_range_def effective_bound_def listing_b_def)
  finally show ?thesis .
qed

lemmas world_eval =
  filter_new_listings_def load_seen_urls_def save_seen_urls_def say_def notify_sinks_def
  empty_world_def notified_world_def

text \<open>
  The filter on a world that has seen the listing, and on a world that has not.
\<close>

theorem no_new_listings_no_write_witness:
  "(\<exists>w'. filter_new_listings DiskOk [listing_b] notified_world = Inr ([], w') \<and>
         store w' = store notified_world \<and> fs_calls w' = fs_calls notified_world) \<and>
   filter_new_listings DiskOk [listing_b] empty_world
     = Inr ([listing_b],
            \<lparr>store = JsonList [JStr (url listing_b)],
             fs_calls = [Mkdir, WriteText [url listing_b]], printed = [], sink_calls = []\<rparr>) \<and>
   [listing_b] \<noteq> []"
proof -
  have "load_seen_urls notified_world = Inr ({url listing_b}, notified_world)"
    "\<forall>l\<in>set [listing_b]. url l \<in> {url listing_b}"
    by (simp_all add: world_eval)
  with no_new_listings_no_write[where w = notified_world and seen = "{url listing_b}"
      and ?w1.0 = notified_world and listings = "[listing_b]" and d = DiskOk]
  have a: "\<exists>w'. filter_new_listings DiskOk [listing_b] notified_world = Inr ([], w') \<and>
         store w' = store notified_world \<and> fs_calls w' = fs_calls notified_world"
    by blast
  have b: "filter_new_listings DiskOk [listing_b] empty_world
     = Inr ([listing_b],
            \<lparr>store = JsonList [JStr (url listing_b)],
             fs_calls = [Mkdir, WriteText [url listing_b]], printed = [], sink_calls = []\<rparr>)"
    by (simp add: world_eval)
  have "fs_calls \<lparr>store = JsonList [JStr (url listing_b)],
             fs_calls = [Mkdir, WriteText [url listing_b]], printed = [], sink_calls = []\<rparr>
          \<noteq> fs_calls empty_world"
    by (simp add: empty_world_def)
  with b no_new_listings_no_write[where w = empty_world and listings = "[listing_b]"
      and d = DiskOk and new = "[listing_b]"
      and ?w2.0 = "\<lparr>store = JsonList [JStr (url listing_b)],
             fs_calls = [Mkdir, WriteText [url listing_b]], printed = [], sink_calls = []\<rparr>"]
  have c: "[listing_b] \<noteq> []"
    by blast
  from a b c show ?thesis by blast
qed


end
